theory Spec2Isabelle
  imports Main "HOL-Library.AList"
begin

section \<open>The IP Insights notebook as a sequential workflow\<close>

text \<open>
  The program is the notebook \<^verbatim>\<open>detection-ml-wksp/sec405-ipinsights.ipynb\<close>: eleven code
  cells run top to bottom. Every substantive computation happens in a remote service or
  in a library (boto3, the SageMaker SDK, pandas); the notebook's own logic is the order
  of the calls, the values it passes, and the \<^verbatim>\<open>try/except\<close> of the bucket check.

  The embedding therefore records every call that leaves the notebook as an event of a
  trace, and takes what the outside world answers from an environment record. A cell is
  a function returning the events it caused and either the exception that ended it or
  its value. Running the notebook stops at the first cell that raises.
\<close>

subsection \<open>Exceptions\<close>

text \<open>
  The exception classes the bucket check distinguishes, and every other class. A
  \<^verbatim>\<open>ClientError\<close> carries \<^verbatim>\<open>response['Error']['Code']\<close> and its message.
\<close>

datatype exn =
    ParamValidationError string
  | ClientError string string
  | OtherException string string

subsection \<open>Data passed to the services\<close>

record config =
  bucket :: string
  prefix :: string

record s3_input =
  s3_data :: string
  distribution :: string
  input_content_type :: string

record training_request =
  AlgorithmImage :: string
  RoleArn :: string
  InstanceCount :: nat
  InstanceType :: string
  OutputPath :: string
  HyperParameters :: "(string \<times> string) list"
  InputDataConfig :: "(string \<times> s3_input) list"

datatype job_status = Completed | Failed | Stopped

record training_job =
  job_name :: string
  final_status :: job_status

record deploy_request =
  TrainingJobName :: string
  InitialInstanceCount :: nat
  EndpointInstanceType :: string

record invoke_request =
  EndpointName :: string
  ContentType :: "string option"
  Accept :: "string option"
  Body :: string

text \<open>
  A score as the endpoint returns it. The notebook never inspects the number, so it is
  kept as the literal received.
\<close>

datatype ScoreResult = ScoreResult (dot_product: string)

text \<open>What \<^verbatim>\<open>predictor.predict\<close> returns: the raw body, or the deserialized scores.\<close>

datatype prediction = RawBody string | Scores "ScoreResult list"

subsection \<open>Events and results\<close>

datatype event =
    Print string
  | GetExecutionRole
  | HeadBucket string
  | CreateTrainingJob training_request
  | CreateEndpoint deploy_request
  | ReadObject string
  | InvokeEndpoint invoke_request

type_synonym 'a res = "event list \<times> (exn + 'a)"

definition returnR :: "'a \<Rightarrow> 'a res" where
  "returnR x = ([], Inr x)"

definition raiseR :: "exn \<Rightarrow> 'a res" where
  "raiseR e = ([], Inl e)"

definition liftE :: "exn + 'a \<Rightarrow> 'a res" where
  "liftE r = ([], r)"

definition print_line :: "string \<Rightarrow> unit res" where
  "print_line s = ([Print s], Inr ())"

text \<open>A call that leaves the notebook: the event, and the answer of the environment.\<close>

definition call :: "event \<Rightarrow> exn + 'a \<Rightarrow> 'a res" where
  "call ev r = ([ev], r)"

text \<open>Sequencing: an exception ends the run, keeping the events so far.\<close>

definition bindR :: "'a res \<Rightarrow> ('a \<Rightarrow> 'b res) \<Rightarrow> 'b res" where
  "bindR m f =
     (case snd m of
        Inl e \<Rightarrow> (fst m, Inl e)
      | Inr x \<Rightarrow> (fst m @ fst (f x), snd (f x)))"

subsection \<open>The environment\<close>

text \<open>
  What the services and libraries outside the notebook answer. \<open>head_bucket\<close> gives the
  exception of \<^verbatim>\<open>head_bucket(Bucket=...)\<close>, or \<open>None\<close> when it returns; \<open>fit\<close> is the
  blocking \<^verbatim>\<open>Estimator.fit\<close>: it raises, or returns with the job as it ended;
  \<open>read_object\<close> gives a CSV object as its sequence of records, each a list of fields;
  \<open>csv_serializer\<close> and \<open>json_deserializer\<close> are the SDK's functions of these names.
\<close>

record env =
  get_execution_role :: "exn + string"
  head_bucket :: "string \<Rightarrow> exn option"
  region_name :: string
  get_image_uri :: "string \<Rightarrow> string \<Rightarrow> exn + string"
  fit :: "training_request \<Rightarrow> exn + training_job"
  deploy :: "deploy_request \<Rightarrow> exn + string"
  read_object :: "string \<Rightarrow> exn + string list list"
  csv_serializer :: "string list list \<Rightarrow> exn + string"
  invoke_endpoint :: "invoke_request \<Rightarrow> exn + string"
  json_deserializer :: "string \<Rightarrow> exn + ScoreResult list"

subsection \<open>Strings and paths\<close>

text \<open>\<^verbatim>\<open>os.path.join\<close> (posixpath), one component at a time.\<close>

definition join2 :: "string \<Rightarrow> string \<Rightarrow> string" where
  "join2 path b =
     (if take 1 b = ''/'' then b
      else if path = [] \<or> drop (length path - 1) path = ''/'' then path @ b
      else path @ ''/'' @ b)"

definition os_path_join :: "string \<Rightarrow> string list \<Rightarrow> string" where
  "os_path_join a p = foldl join2 a p"

text \<open>\<^verbatim>\<open>'s3://{}/{}'.format(b, k)\<close>\<close>

definition s3_uri :: "string \<Rightarrow> string \<Rightarrow> string" where
  "s3_uri b k = ''s3://'' @ b @ ''/'' @ k"

subsection \<open>Cell 1: imports and greeting\<close>

definition cell1 :: "unit res" where
  "cell1 = print_line ''Welcome to IP Insights!''"

subsection \<open>Cell 3: the bucket and the prefix\<close>

text \<open>The operator edits this cell; the notebook ships with a placeholder name.\<close>

definition cell3 :: config where
  "cell3 = \<lparr>bucket = ''sec405-tuplesbucket-########'', prefix = ''''\<rparr>"

subsection \<open>Cell 5: the bucket check\<close>

definition invalid_configuration_line :: string where
  "invalid_configuration_line =
     ''Hey! You either forgot to specify your S3 bucket'' @
     '' or you gave your bucket an invalid name!''"

definition access_denied_line :: "string \<Rightarrow> string" where
  "access_denied_line b =
     ''Hey! You don't have permission to access the bucket, '' @ b @ ''.''"

definition not_found_line :: "string \<Rightarrow> string" where
  "not_found_line b = ''Hey! Your bucket, '' @ b @ '', doesn't exist!''"

definition accessible_line :: "string \<Rightarrow> string \<Rightarrow> string" where
  "accessible_line b p =
     ''Training input/output will be stored in: s3://'' @ b @ ''/'' @ p"

text \<open>
  The \<^verbatim>\<open>except\<close> clauses and the \<^verbatim>\<open>else\<close> of the \<^verbatim>\<open>try\<close>, in the source's order, on the
  outcome of \<^verbatim>\<open>head_bucket\<close>. An exception of any other class is not caught.
\<close>

fun handle_head_bucket :: "config \<Rightarrow> exn option \<Rightarrow> unit res" where
  "handle_head_bucket cfg (Some (ParamValidationError m)) =
     print_line invalid_configuration_line"
| "handle_head_bucket cfg (Some (ClientError code m)) =
     (if code = ''403'' then print_line (access_denied_line (bucket cfg))
      else if code = ''404'' then print_line (not_found_line (bucket cfg))
      else raiseR (ClientError code m))"
| "handle_head_bucket cfg (Some e) = raiseR e"
| "handle_head_bucket cfg None =
     print_line (accessible_line (bucket cfg) (prefix cfg))"

definition check_bucket :: "env \<Rightarrow> config \<Rightarrow> unit res" where
  "check_bucket E cfg =
     bindR (call (HeadBucket (bucket cfg)) (Inr ()))
       (\<lambda>_. handle_head_bucket cfg (head_bucket E (bucket cfg)))"

text \<open>The cell defines \<^verbatim>\<open>execution_role\<close>, then checks the bucket.\<close>

definition cell5 :: "env \<Rightarrow> config \<Rightarrow> string res" where
  "cell5 E cfg =
     bindR (call GetExecutionRole (get_execution_role E))
       (\<lambda>execution_role.
     bindR (check_bucket E cfg)
       (\<lambda>_. returnR execution_role))"

subsection \<open>Cell 7: the algorithm image and the input channel\<close>

record cell7_vars =
  image :: string
  train_key :: string
  s3_train_data :: string
  input_data :: "(string \<times> s3_input) list"

text \<open>The variables the cell defines, for the image the SDK's lookup returned.\<close>

definition cell7_values :: "config \<Rightarrow> string \<Rightarrow> cell7_vars" where
  "cell7_values cfg img =
     (let tk = os_path_join (prefix cfg) [''train'', ''cloudtrail_tuples.csv''];
          uri = s3_uri (bucket cfg) tk
      in \<lparr>image = img, train_key = tk, s3_train_data = uri,
          input_data =
            [(''train'',
              \<lparr>s3_data = uri, distribution = ''FullyReplicated'',
               input_content_type = ''text/csv''\<rparr>)]\<rparr>)"

definition cell7 :: "env \<Rightarrow> config \<Rightarrow> cell7_vars res" where
  "cell7 E cfg =
     bindR (liftE (get_image_uri E (region_name E) ''ipinsights''))
       (\<lambda>img. returnR (cell7_values cfg img))"

subsection \<open>Cell 8: the estimator, its hyperparameters, and \<^verbatim>\<open>fit\<close>\<close>

record estimator =
  image_name :: string
  role :: string
  train_instance_count :: nat
  train_instance_type :: string
  output_path :: string
  hyperparam_dict :: "(string \<times> string) list"
  latest_training_job :: "training_job option"

text \<open>
  \<^verbatim>\<open>set_hyperparameters(**kwargs)\<close> stores each keyword argument in the estimator's
  dictionary, in the order given. Nothing is checked.
\<close>

definition set_hyperparameters ::
    "(string \<times> string) list \<Rightarrow> estimator \<Rightarrow> estimator" where
  "set_hyperparameters kwargs est =
     est\<lparr>hyperparam_dict :=
           fold (\<lambda>kv d. AList.update (fst kv) (snd kv) d) kwargs (hyperparam_dict est)\<rparr>"

text \<open>
  \<^verbatim>\<open>fit(inputs)\<close> submits the training request built from the estimator and blocks. When
  the call raises, the cell ends there; otherwise the estimator remembers the job.
\<close>

definition request_of :: "estimator \<Rightarrow> (string \<times> s3_input) list \<Rightarrow> training_request" where
  "request_of est inputs =
     \<lparr>AlgorithmImage = image_name est, RoleArn = role est,
      InstanceCount = train_instance_count est,
      InstanceType = train_instance_type est,
      OutputPath = output_path est,
      HyperParameters = hyperparam_dict est,
      InputDataConfig = inputs\<rparr>"

definition estimator_fit ::
    "env \<Rightarrow> estimator \<Rightarrow> (string \<times> s3_input) list \<Rightarrow> estimator res" where
  "estimator_fit E est inputs =
     bindR (call (CreateTrainingJob (request_of est inputs)) (fit E (request_of est inputs)))
       (\<lambda>job. returnR (est\<lparr>latest_training_job := Some job\<rparr>))"

definition notebook_hyperparameters :: "(string \<times> string) list" where
  "notebook_hyperparameters =
     [(''num_entity_vectors'', ''20000''),
      (''random_negative_sampling_rate'', ''5''),
      (''vector_dim'', ''128''),
      (''mini_batch_size'', ''1000''),
      (''epochs'', ''5''),
      (''learning_rate'', ''0.01'')]"

definition new_estimator :: "config \<Rightarrow> string \<Rightarrow> string \<Rightarrow> estimator" where
  "new_estimator cfg img execution_role =
     \<lparr>image_name = img, role = execution_role,
      train_instance_count = 1,
      train_instance_type = ''ml.m4.xlarge'',
      output_path = ''s3://'' @ bucket cfg @ ''/'' @ prefix cfg @ ''/output'',
      hyperparam_dict = [],
      latest_training_job = None\<rparr>"

definition cell8_estimator :: "config \<Rightarrow> string \<Rightarrow> cell7_vars \<Rightarrow> estimator" where
  "cell8_estimator cfg execution_role v =
     set_hyperparameters notebook_hyperparameters
       (new_estimator cfg (image v) execution_role)"

definition cell8 :: "env \<Rightarrow> config \<Rightarrow> string \<Rightarrow> cell7_vars \<Rightarrow> estimator res" where
  "cell8 E cfg execution_role v =
     estimator_fit E (cell8_estimator cfg execution_role v) (input_data v)"

subsection \<open>Cell 9: the job's name\<close>

text \<open>Reading \<^verbatim>\<open>latest_training_job.job_name\<close> of an estimator never fitted raises.\<close>

definition cell9 :: "estimator \<Rightarrow> unit res" where
  "cell9 ip_insights =
     (case latest_training_job ip_insights of
        None \<Rightarrow> raiseR (OtherException ''AttributeError'' ''job_name'')
      | Some job \<Rightarrow> print_line (''Training job name: '' @ job_name job))"

subsection \<open>Cell 11: deployment\<close>

datatype serializer = CsvSerializer

datatype deserializer = JsonDeserializer

record predictor =
  endpoint :: string
  content_type :: "string option"
  serializer :: "serializer option"
  accept :: "string option"
  deserializer :: "deserializer option"

text \<open>
  \<^verbatim>\<open>deploy\<close> needs a training job; it asks for the endpoint, blocks, and returns a
  predictor with no content type, no accept type and no (de)serializer set.
\<close>

definition estimator_deploy :: "env \<Rightarrow> estimator \<Rightarrow> nat \<Rightarrow> string \<Rightarrow> predictor res" where
  "estimator_deploy E est n ty =
     (case latest_training_job est of
        None \<Rightarrow>
          raiseR (OtherException ''ValueError''
                    ''Estimator is not associated with a training job'')
      | Some job \<Rightarrow>
          (let req = \<lparr>TrainingJobName = job_name job, InitialInstanceCount = n,
                      EndpointInstanceType = ty\<rparr>
           in bindR (call (CreateEndpoint req) (deploy E req))
                (\<lambda>name. returnR
                   \<lparr>endpoint = name, content_type = None, serializer = None,
                    accept = None, deserializer = None\<rparr>)))"

definition cell11 :: "env \<Rightarrow> estimator \<Rightarrow> predictor res" where
  "cell11 E ip_insights = estimator_deploy E ip_insights 1 ''ml.m4.xlarge''"

subsection \<open>Cell 12: the endpoint's name\<close>

definition cell12 :: "predictor \<Rightarrow> unit res" where
  "cell12 p = print_line (''Endpoint name: '' @ endpoint p)"

subsection \<open>Cell 14: request and response formats\<close>

definition cell14 :: "predictor \<Rightarrow> predictor" where
  "cell14 p =
     p\<lparr>content_type := Some ''text/csv'',
       serializer := Some CsvSerializer,
       accept := Some ''application/json'',
       deserializer := Some JsonDeserializer\<rparr>"

subsection \<open>Cells 16 and 18: reading a CSV object and predicting\<close>

record data_frame =
  columns :: "string list"
  frame_values :: "string list list"

text \<open>
  \<^verbatim>\<open>pd.read_csv(uri)\<close> with no \<^verbatim>\<open>header\<close> argument: the first record names the columns,
  the records after it are the data. An object with no record raises.
\<close>

definition read_csv :: "env \<Rightarrow> string \<Rightarrow> data_frame res" where
  "read_csv E uri =
     bindR (call (ReadObject uri) (read_object E uri))
       (\<lambda>records.
          case records of
            [] \<Rightarrow> raiseR (OtherException ''EmptyDataError'' ''No columns to parse from file'')
          | header # rows \<Rightarrow> returnR \<lparr>columns = header, frame_values = rows\<rparr>)"

text \<open>
  \<^verbatim>\<open>predictor.predict(data)\<close>: the body is the serializer's output, the request carries
  the predictor's endpoint name, content type and accept type, and the response goes
  through the deserializer when there is one. A predictor with no serializer hands the
  array itself to the HTTP client, which rejects it.
\<close>

definition serialize :: "env \<Rightarrow> predictor \<Rightarrow> string list list \<Rightarrow> exn + string" where
  "serialize E p data =
     (case serializer p of
        None \<Rightarrow> Inl (ParamValidationError ''Body'')
      | Some CsvSerializer \<Rightarrow> csv_serializer E data)"

definition handle_response :: "env \<Rightarrow> predictor \<Rightarrow> string \<Rightarrow> exn + prediction" where
  "handle_response E p body =
     (case deserializer p of
        None \<Rightarrow> Inr (RawBody body)
      | Some JsonDeserializer \<Rightarrow>
          (case json_deserializer E body of
             Inl e \<Rightarrow> Inl e
           | Inr scores \<Rightarrow> Inr (Scores scores)))"

definition request_args :: "predictor \<Rightarrow> string \<Rightarrow> invoke_request" where
  "request_args p body =
     \<lparr>EndpointName = endpoint p, ContentType = content_type p,
      Accept = accept p, Body = body\<rparr>"

definition predict :: "env \<Rightarrow> predictor \<Rightarrow> string list list \<Rightarrow> prediction res" where
  "predict E p data =
     bindR (liftE (serialize E p data))
       (\<lambda>body.
     bindR (call (InvokeEndpoint (request_args p body))
              (invoke_endpoint E (request_args p body)))
       (\<lambda>response. liftE (handle_response E p response)))"

text \<open>Cell 16 predicts on the training object, cell 18 on the findings object.\<close>

definition cell16 :: "env \<Rightarrow> config \<Rightarrow> cell7_vars \<Rightarrow> predictor \<Rightarrow> prediction res" where
  "cell16 E cfg v p =
     bindR (read_csv E (s3_uri (bucket cfg) (train_key v)))
       (\<lambda>inference_data. predict E p (frame_values inference_data))"

definition infer_key :: "config \<Rightarrow> string" where
  "infer_key cfg = os_path_join (prefix cfg) [''infer'', ''guardduty_tuples.csv'']"

definition cell18 :: "env \<Rightarrow> config \<Rightarrow> predictor \<Rightarrow> prediction res" where
  "cell18 E cfg p =
     bindR (read_csv E (s3_uri (bucket cfg) (infer_key cfg)))
       (\<lambda>inference_data. predict E p (frame_values inference_data))"

subsection \<open>Running the notebook\<close>

text \<open>
  The cells in order, for the configuration the operator wrote into cell 3. The value is
  what cells 16 and 18 display.
\<close>

definition inference :: "env \<Rightarrow> config \<Rightarrow> cell7_vars \<Rightarrow> predictor \<Rightarrow> (prediction \<times> prediction) res" where
  "inference E cfg v p =
     bindR (cell16 E cfg v (cell14 p))
       (\<lambda>normal.
     bindR (cell18 E cfg (cell14 p))
       (\<lambda>findings. returnR (normal, findings)))"

definition deployment :: "env \<Rightarrow> config \<Rightarrow> cell7_vars \<Rightarrow> estimator \<Rightarrow> (prediction \<times> prediction) res" where
  "deployment E cfg v ip_insights =
     bindR (cell11 E ip_insights)
       (\<lambda>p.
     bindR (cell12 p)
       (\<lambda>_. inference E cfg v p))"

definition training :: "env \<Rightarrow> config \<Rightarrow> string \<Rightarrow> (prediction \<times> prediction) res" where
  "training E cfg execution_role =
     bindR (cell7 E cfg)
       (\<lambda>v.
     bindR (cell8 E cfg execution_role v)
       (\<lambda>ip_insights.
     bindR (cell9 ip_insights)
       (\<lambda>_. deployment E cfg v ip_insights)))"

definition run_all :: "env \<Rightarrow> config \<Rightarrow> (prediction \<times> prediction) res" where
  "run_all E cfg =
     bindR cell1
       (\<lambda>_.
     bindR (cell5 E cfg)
       (\<lambda>execution_role. training E cfg execution_role))"

subsection \<open>Reading a trace\<close>

fun is_training_call :: "event \<Rightarrow> bool" where
  "is_training_call (CreateTrainingJob r) = True"
| "is_training_call ev = False"

fun is_deployment_call :: "event \<Rightarrow> bool" where
  "is_deployment_call (CreateEndpoint r) = True"
| "is_deployment_call ev = False"

fun is_inference_call :: "event \<Rightarrow> bool" where
  "is_inference_call (InvokeEndpoint r) = True"
| "is_inference_call ev = False"

fun is_storage_call :: "event \<Rightarrow> bool" where
  "is_storage_call (HeadBucket b) = True"
| "is_storage_call (ReadObject u) = True"
| "is_storage_call ev = False"

subsection \<open>A concrete environment: the specification's scenario\<close>

text \<open>
  The bucket \<^verbatim>\<open>sec405-tuplesbucket-ABC123\<close> with its two objects, every service
  succeeding, and an endpoint that answers one score for each line of the request body.
  The serializer is the SDK's \<^verbatim>\<open>csv_serializer\<close> as far as the notebook meets it: it
  refuses an empty batch (\<^verbatim>\<open>ValueError\<close>, "Cannot serialize empty array") and
  writes one line for each row otherwise.
\<close>

fun join_with :: "string \<Rightarrow> string list \<Rightarrow> string" where
  "join_with sep [] = []"
| "join_with sep [x] = x"
| "join_with sep (x # y # ys) = x @ sep @ join_with sep (y # ys)"

definition csv_text :: "string list list \<Rightarrow> string" where
  "csv_text rows = join_with [CHR 10] (map (join_with '','') rows)"

definition text_lines :: "string \<Rightarrow> string list" where
  "text_lines s =
     foldr (\<lambda>c acc. if c = CHR 10 then [] # acc
                     else (case acc of [] \<Rightarrow> [[c]] | l # ls \<Rightarrow> (c # l) # ls)) s []"

definition scenario_cfg :: config where
  "scenario_cfg = \<lparr>bucket = ''sec405-tuplesbucket-ABC123'', prefix = ''''\<rparr>"

definition scenario_objects :: "string \<Rightarrow> exn + string list list" where
  "scenario_objects uri =
     (if uri = ''s3://sec405-tuplesbucket-ABC123/train/cloudtrail_tuples.csv''
      then Inr [[''user-1'', ''10.0.0.5''], [''user-2'', ''10.0.0.9'']]
      else if uri = ''s3://sec405-tuplesbucket-ABC123/infer/guardduty_tuples.csv''
      then Inr [[''user-1'', ''203.0.113.44'']]
      else Inl (OtherException ''FileNotFoundError'' uri))"

definition scenario_serializer :: "string list list \<Rightarrow> exn + string" where
  "scenario_serializer rows =
     (if rows = [] then Inl (OtherException ''ValueError'' ''Cannot serialize empty array'')
      else Inr (csv_text rows))"

definition scenario_env :: env where
  "scenario_env =
     \<lparr>get_execution_role = Inr ''arn:aws:iam::123456789012:role/sec405'',
      head_bucket = (\<lambda>b. None),
      region_name = ''us-west-2'',
      get_image_uri = (\<lambda>region algorithm. Inr (algorithm @ '':1'')),
      fit = (\<lambda>req. Inr \<lparr>job_name = ''ipinsights-job-1'', final_status = Completed\<rparr>),
      deploy = (\<lambda>req. Inr (TrainingJobName req)),
      read_object = scenario_objects,
      csv_serializer = scenario_serializer,
      invoke_endpoint =
        (\<lambda>req. Inr (join_with [CHR 10] (map (\<lambda>l. ''0.0'') (text_lines (Body req))))),
      json_deserializer = (\<lambda>body. Inr (map ScoreResult (text_lines body)))\<rparr>"

text \<open>The same environment with a given outcome of the bucket probe.\<close>

definition env_head :: "exn option \<Rightarrow> env" where
  "env_head outcome = scenario_env\<lparr>head_bucket := (\<lambda>b. outcome)\<rparr>"

text \<open>
  A bucket that does not exist: the probe answers 404, and the training service rejects
  a request whose input it cannot find.
\<close>

definition env_404 :: env where
  "env_404 =
     (env_head (Some (ClientError ''404'' ''Not Found'')))
       \<lparr>fit := (\<lambda>req. Inl (ClientError ''ValidationException'' ''No S3 objects found''))\<rparr>"

text \<open>
  An empty bucket name: the storage client rejects it before any request is sent, and
  the training service rejects the input location built from it.
\<close>

definition empty_cfg :: config where
  "empty_cfg = \<lparr>bucket = '''', prefix = ''''\<rparr>"

definition env_invalid :: env where
  "env_invalid =
     (env_head (Some (ParamValidationError ''Invalid bucket name'')))
       \<lparr>fit := (\<lambda>req. Inl (ClientError ''ValidationException'' ''Invalid S3Uri''))\<rparr>"

text \<open>
  A training job that ends stopped. The blocking wait of the SDK raises for a failed job
  and returns for a completed or a stopped one.
\<close>

definition env_stopped :: env where
  "env_stopped =
     scenario_env
       \<lparr>fit := (\<lambda>req. Inr \<lparr>job_name = ''ipinsights-job-1'', final_status = Stopped\<rparr>)\<rparr>"

text \<open>The predictor of the scenario after cell 14.\<close>

definition scenario_predictor :: predictor where
  "scenario_predictor =
     cell14 \<lparr>endpoint = ''ipinsights-job-1'', content_type = None, serializer = None,
             accept = None, deserializer = None\<rparr>"

text \<open>The scenario with a header line in front of the single row of the findings.\<close>

definition scenario_env_with_header :: "string list \<Rightarrow> env" where
  "scenario_env_with_header header =
     scenario_env\<lparr>read_object := (\<lambda>uri. Inr [header, [''user-1'', ''203.0.113.44'']])\<rparr>"


section \<open>Properties\<close>

subsection \<open>Sequencing\<close>

lemma bindR_Inr: "snd m = Inr x \<Longrightarrow> bindR m f = (fst m @ fst (f x), snd (f x))"
  by (simp add: bindR_def)

lemma bindR_Inl: "snd m = Inl e \<Longrightarrow> bindR m f = (fst m, Inl e)"
  by (simp add: bindR_def)


subsection \<open>The stages, unfolded\<close>

lemma check_bucket_eq:
  "check_bucket E cfg =
     (HeadBucket (bucket cfg) # fst (handle_head_bucket cfg (head_bucket E (bucket cfg))),
      snd (handle_head_bucket cfg (head_bucket E (bucket cfg))))"
  by (simp add: check_bucket_def bindR_def call_def)

lemma cell5_eq:
  "get_execution_role E = Inr r \<Longrightarrow>
   cell5 E cfg = (GetExecutionRole # fst (check_bucket E cfg),
                  case snd (check_bucket E cfg) of Inl e \<Rightarrow> Inl e | Inr u \<Rightarrow> Inr r)"
  by (simp add: cell5_def bindR_def call_def returnR_def split: sum.splits)

lemma run_all_after_cell5:
  "cell5 E cfg = (t, Inr r) \<Longrightarrow>
   run_all E cfg =
     (Print ''Welcome to IP Insights!'' # t @ fst (training E cfg r), snd (training E cfg r))"
  by (simp add: run_all_def cell1_def print_line_def bindR_def)

lemma training_after_cell7:
  "get_image_uri E (region_name E) ''ipinsights'' = Inr img \<Longrightarrow>
   training E cfg r =
     (let v = cell7_values cfg img;
          req = request_of (cell8_estimator cfg r v) (input_data v)
      in case fit E req of
           Inl e \<Rightarrow> ([CreateTrainingJob req], Inl e)
         | Inr job \<Rightarrow>
             (CreateTrainingJob req # Print (''Training job name: '' @ job_name job) #
                fst (deployment E cfg v ((cell8_estimator cfg r v)\<lparr>latest_training_job := Some job\<rparr>)),
              snd (deployment E cfg v ((cell8_estimator cfg r v)\<lparr>latest_training_job := Some job\<rparr>))))"
  by (simp add: training_def cell7_def cell8_def cell9_def estimator_fit_def liftE_def
      returnR_def call_def print_line_def bindR_def Let_def split: sum.splits)

lemma deployment_eq:
  "latest_training_job est = Some job \<Longrightarrow>
   deployment E cfg v est =
     (let req = \<lparr>TrainingJobName = job_name job, InitialInstanceCount = 1,
                 EndpointInstanceType = ''ml.m4.xlarge''\<rparr>
      in case deploy E req of
           Inl e \<Rightarrow> ([CreateEndpoint req], Inl e)
         | Inr name \<Rightarrow>
             (let p = \<lparr>endpoint = name, content_type = None, serializer = None,
                       accept = None, deserializer = None\<rparr>
              in (CreateEndpoint req # Print (''Endpoint name: '' @ name) # fst (inference E cfg v p),
                  snd (inference E cfg v p))))"
  by (simp add: deployment_def cell11_def cell12_def estimator_deploy_def
      returnR_def call_def print_line_def bindR_def Let_def split: sum.splits)

lemma env_head_simps:
  "get_execution_role (env_head outcome) = Inr ''arn:aws:iam::123456789012:role/sec405''"
  "head_bucket (env_head outcome) b = outcome"
  "get_image_uri (env_head outcome) (region_name (env_head outcome)) ''ipinsights'' =
     Inr ''ipinsights:1''"
  by (simp_all add: env_head_def scenario_env_def)

lemma env_404_simps:
  "get_execution_role env_404 = Inr ''arn:aws:iam::123456789012:role/sec405''"
  "head_bucket env_404 b = Some (ClientError ''404'' ''Not Found'')"
  "get_image_uri env_404 (region_name env_404) ''ipinsights'' = Inr ''ipinsights:1''"
  by (simp_all add: env_404_def env_head_def scenario_env_def)

subsection \<open>The bucket check\<close>

text \<open>
  C4. The check classifies the outcome of the probe: a parameter-validation error is
  reported with the invalid-configuration line, a client error with code 403 with the
  access-denied line, one with code 404 with the not-found line; a client error with any
  other code, and an exception of any other class, leaves the check as the exception it
  was, with nothing printed.
\<close>

theorem check_bucket_classifies:
  "(head_bucket E (bucket cfg) = Some (ParamValidationError m) \<longrightarrow>
      check_bucket E cfg =
        ([HeadBucket (bucket cfg), Print invalid_configuration_line], Inr ()))
   \<and> (head_bucket E (bucket cfg) = Some (ClientError ''403'' m) \<longrightarrow>
      check_bucket E cfg =
        ([HeadBucket (bucket cfg), Print (access_denied_line (bucket cfg))], Inr ()))
   \<and> (head_bucket E (bucket cfg) = Some (ClientError ''404'' m) \<longrightarrow>
      check_bucket E cfg =
        ([HeadBucket (bucket cfg), Print (not_found_line (bucket cfg))], Inr ()))
   \<and> (head_bucket E (bucket cfg) = Some (ClientError code m) \<and> code \<noteq> ''403'' \<and> code \<noteq> ''404'' \<longrightarrow>
      check_bucket E cfg = ([HeadBucket (bucket cfg)], Inl (ClientError code m)))
   \<and> (head_bucket E (bucket cfg) = Some (OtherException cls m) \<longrightarrow>
      check_bucket E cfg = ([HeadBucket (bucket cfg)], Inl (OtherException cls m)))"
  by (simp add: check_bucket_eq print_line_def raiseR_def)

theorem check_bucket_classifies_witness:
  "check_bucket (env_head (Some (ParamValidationError ''Invalid bucket name''))) cell3 =
     ([HeadBucket (bucket cell3), Print invalid_configuration_line], Inr ())
   \<and> check_bucket (env_head (Some (ClientError ''403'' ''Forbidden''))) scenario_cfg =
     ([HeadBucket (bucket scenario_cfg), Print (access_denied_line (bucket scenario_cfg))],
      Inr ())
   \<and> check_bucket (env_head (Some (ClientError ''404'' ''Not Found''))) scenario_cfg =
     ([HeadBucket (bucket scenario_cfg), Print (not_found_line (bucket scenario_cfg))],
      Inr ())
   \<and> check_bucket (env_head (Some (ClientError ''500'' ''Internal Error''))) scenario_cfg =
     ([HeadBucket (bucket scenario_cfg)], Inl (ClientError ''500'' ''Internal Error''))
   \<and> check_bucket
       (env_head (Some (OtherException ''EndpointConnectionError'' ''unreachable'')))
       scenario_cfg =
     ([HeadBucket (bucket scenario_cfg)],
      Inl (OtherException ''EndpointConnectionError'' ''unreachable''))"
  using
    check_bucket_classifies
      [of "env_head (Some (ParamValidationError ''Invalid bucket name''))" cell3
        "''Invalid bucket name''"]
    check_bucket_classifies
      [of "env_head (Some (ClientError ''403'' ''Forbidden''))" scenario_cfg "''Forbidden''"]
    check_bucket_classifies
      [of "env_head (Some (ClientError ''404'' ''Not Found''))" scenario_cfg "''Not Found''"]
    check_bucket_classifies
      [of "env_head (Some (ClientError ''500'' ''Internal Error''))" scenario_cfg
        "''Internal Error''" "''500''"]
    check_bucket_classifies
      [of "env_head (Some (OtherException ''EndpointConnectionError'' ''unreachable''))"
        scenario_cfg "''unreachable''" _ "''EndpointConnectionError''"]
  by (simp add: env_head_simps)

text \<open>
  C1, as the notebook behaves. When the probe answers 404 the check prints the not-found
  line and the cell ends normally, with the execution role defined. The run is not
  stopped there: it goes on with the training stage, and once the image lookup has
  succeeded the training request is submitted.
\<close>

theorem not_found_does_not_halt:
  assumes "get_execution_role E = Inr r"
    and "head_bucket E (bucket cfg) = Some (ClientError ''404'' m)"
  shows "cell5 E cfg =
           ([GetExecutionRole, HeadBucket (bucket cfg), Print (not_found_line (bucket cfg))],
            Inr r)
         \<and> run_all E cfg =
             (Print ''Welcome to IP Insights!'' # fst (cell5 E cfg) @ fst (training E cfg r),
              snd (training E cfg r))
         \<and> (\<forall>img. get_image_uri E (region_name E) ''ipinsights'' = Inr img \<longrightarrow>
               list_ex is_training_call (fst (run_all E cfg)))"
proof -
  have c5: "cell5 E cfg =
      ([GetExecutionRole, HeadBucket (bucket cfg), Print (not_found_line (bucket cfg))], Inr r)"
    using assms by (simp add: cell5_eq check_bucket_eq print_line_def)
  have run: "run_all E cfg =
      (Print ''Welcome to IP Insights!'' # fst (cell5 E cfg) @ fst (training E cfg r),
       snd (training E cfg r))"
    using run_all_after_cell5 [OF c5] by (simp add: c5)
  have "list_ex is_training_call (fst (run_all E cfg))"
    if "get_image_uri E (region_name E) ''ipinsights'' = Inr img" for img
    using training_after_cell7 [OF that, of cfg r]
    by (simp add: run Let_def split: sum.splits)
  with c5 run show ?thesis by blast
qed

theorem not_found_does_not_halt_witness:
  "get_execution_role env_404 = Inr ''arn:aws:iam::123456789012:role/sec405''
   \<and> head_bucket env_404 (bucket scenario_cfg) = Some (ClientError ''404'' ''Not Found'')
   \<and> cell5 env_404 scenario_cfg =
     ([GetExecutionRole, HeadBucket (bucket scenario_cfg),
       Print (not_found_line (bucket scenario_cfg))],
      Inr ''arn:aws:iam::123456789012:role/sec405'')
   \<and> list_ex is_training_call (fst (run_all env_404 scenario_cfg))"
  using not_found_does_not_halt [OF env_404_simps(1) env_404_simps(2), of scenario_cfg]
    env_404_simps
  by blast

text \<open>
  The claim as written fails for the bucket of \<open>env_404\<close>: the probe answers 404, cell 5
  ends normally, and the trace of the run holds a training request.
\<close>

theorem not_found_halts_counterexample:
  "head_bucket env_404 (bucket scenario_cfg) = Some (ClientError ''404'' ''Not Found'')
   \<and> snd (cell5 env_404 scenario_cfg) = Inr ''arn:aws:iam::123456789012:role/sec405''
   \<and> list_ex is_training_call (fst (run_all env_404 scenario_cfg))"
  by code_simp

lemma env_invalid_simps:
  "get_execution_role env_invalid = Inr ''arn:aws:iam::123456789012:role/sec405''"
  "head_bucket env_invalid b = Some (ParamValidationError ''Invalid bucket name'')"
  "get_image_uri env_invalid (region_name env_invalid) ''ipinsights'' = Inr ''ipinsights:1''"
  by (simp_all add: env_invalid_def env_head_def scenario_env_def)

text \<open>
  C2, as the notebook behaves. The notebook has no test of its own on the name: it hands
  it to the probe. When the storage client rejects the name with a parameter-validation
  error, the check prints the invalid-configuration line and the cell ends normally;
  no error is raised, and the run goes on with the training stage, where the training
  request is submitted once the image lookup has succeeded.
\<close>

theorem invalid_name_does_not_halt:
  assumes "get_execution_role E = Inr r"
    and "head_bucket E (bucket cfg) = Some (ParamValidationError m)"
  shows "cell5 E cfg =
           ([GetExecutionRole, HeadBucket (bucket cfg), Print invalid_configuration_line],
            Inr r)
         \<and> run_all E cfg =
             (Print ''Welcome to IP Insights!'' # fst (cell5 E cfg) @ fst (training E cfg r),
              snd (training E cfg r))
         \<and> (\<forall>img. get_image_uri E (region_name E) ''ipinsights'' = Inr img \<longrightarrow>
               list_ex is_training_call (fst (run_all E cfg)))"
proof -
  have c5: "cell5 E cfg =
      ([GetExecutionRole, HeadBucket (bucket cfg), Print invalid_configuration_line], Inr r)"
    using assms by (simp add: cell5_eq check_bucket_eq print_line_def)
  have run: "run_all E cfg =
      (Print ''Welcome to IP Insights!'' # fst (cell5 E cfg) @ fst (training E cfg r),
       snd (training E cfg r))"
    using run_all_after_cell5 [OF c5] by (simp add: c5)
  have "list_ex is_training_call (fst (run_all E cfg))"
    if "get_image_uri E (region_name E) ''ipinsights'' = Inr img" for img
    using training_after_cell7 [OF that, of cfg r]
    by (simp add: run Let_def split: sum.splits)
  with c5 run show ?thesis by blast
qed

theorem invalid_name_does_not_halt_witness:
  "bucket empty_cfg = ''''
   \<and> get_execution_role env_invalid = Inr ''arn:aws:iam::123456789012:role/sec405''
   \<and> head_bucket env_invalid (bucket empty_cfg) =
       Some (ParamValidationError ''Invalid bucket name'')
   \<and> cell5 env_invalid empty_cfg =
       ([GetExecutionRole, HeadBucket (bucket empty_cfg), Print invalid_configuration_line],
        Inr ''arn:aws:iam::123456789012:role/sec405'')
   \<and> list_ex is_training_call (fst (run_all env_invalid empty_cfg))"
proof -
  have "bucket empty_cfg = ''''"
    by (simp add: empty_cfg_def)
  with invalid_name_does_not_halt [OF env_invalid_simps(1) env_invalid_simps(2), of empty_cfg]
    env_invalid_simps
  show ?thesis by blast
qed

text \<open>
  The claim as written fails for the empty name: cell 5 ends normally, without an error,
  and the trace of the run holds a call of the training interface.
\<close>

theorem empty_name_fails_fast_counterexample:
  "bucket empty_cfg = ''''
   \<and> head_bucket env_invalid (bucket empty_cfg) =
       Some (ParamValidationError ''Invalid bucket name'')
   \<and> snd (cell5 env_invalid empty_cfg) = Inr ''arn:aws:iam::123456789012:role/sec405''
   \<and> list_ex is_training_call (fst (run_all env_invalid empty_cfg))"
  by code_simp

lemma handle_head_bucket_shape:
  "(\<exists>e. handle_head_bucket cfg outcome = ([], Inl e))
   \<or> (\<exists>line. handle_head_bucket cfg outcome = ([Print line], Inr ()))"
  by (cases "(cfg, outcome)" rule: handle_head_bucket.cases)
    (auto simp: print_line_def raiseR_def)

lemma check_bucket_shape:
  "(\<exists>e. check_bucket E cfg = ([HeadBucket (bucket cfg)], Inl e))
   \<or> (\<exists>line. check_bucket E cfg = ([HeadBucket (bucket cfg), Print line], Inr ()))"
  using handle_head_bucket_shape [of cfg "head_bucket E (bucket cfg)"]
  by (auto simp: check_bucket_eq)

lemma cell5_shape:
  "fst (cell5 E cfg) = [GetExecutionRole]
   \<or> fst (cell5 E cfg) = [GetExecutionRole, HeadBucket (bucket cfg)]
   \<or> (\<exists>line. fst (cell5 E cfg) = [GetExecutionRole, HeadBucket (bucket cfg), Print line])"
proof (cases "get_execution_role E")
  case (Inl e)
  then show ?thesis by (simp add: cell5_def bindR_def call_def)
next
  case (Inr r)
  show ?thesis
    using check_bucket_shape [of E cfg] by (auto simp: cell5_eq [OF Inr])
qed

text \<open>
  C9. The check is one probe of the bucket and at most one printed line: it either
  raises after the probe alone, or returns after the probe and exactly one status line.
  The cell around it adds only the lookup of the execution role. On every input the
  cell calls neither the training, the deployment nor the inference interface, and the
  probe is its only call of the storage interface.
\<close>

theorem bucket_check_frame:
  "((\<exists>e. check_bucket E cfg = ([HeadBucket (bucket cfg)], Inl e))
    \<or> (\<exists>line. check_bucket E cfg = ([HeadBucket (bucket cfg), Print line], Inr ())))
   \<and> (fst (cell5 E cfg) = [GetExecutionRole]
      \<or> fst (cell5 E cfg) = GetExecutionRole # fst (check_bucket E cfg))
   \<and> list_all (\<lambda>ev. \<not> is_training_call ev \<and> \<not> is_deployment_call ev \<and> \<not> is_inference_call ev)
       (fst (cell5 E cfg))
   \<and> filter is_storage_call (fst (check_bucket E cfg)) = [HeadBucket (bucket cfg)]"
proof -
  have a: "fst (cell5 E cfg) = [GetExecutionRole]
      \<or> fst (cell5 E cfg) = GetExecutionRole # fst (check_bucket E cfg)"
    by (cases "get_execution_role E")
      (simp_all add: cell5_def bindR_def call_def returnR_def split: sum.splits)
  have b: "list_all (\<lambda>ev. \<not> is_training_call ev \<and> \<not> is_deployment_call ev \<and> \<not> is_inference_call ev)
       (fst (cell5 E cfg))"
    using cell5_shape [of E cfg] by auto
  have c: "filter is_storage_call (fst (check_bucket E cfg)) = [HeadBucket (bucket cfg)]"
    using check_bucket_shape [of E cfg] by auto
  from a b c check_bucket_shape [of E cfg] show ?thesis by blast
qed

subsection \<open>Training and deployment\<close>

lemma map_of_fold_update:
  "map_of (fold (\<lambda>kv d. AList.update (fst kv) (snd kv) d) kwargs d) =
     map_of d ++ map_of (rev kwargs)"
  by (induction kwargs arbitrary: d) (simp_all add: update_conv' map_add_upd_left)

text \<open>
  C6. Whatever strings are given, \<open>set_hyperparameters\<close> stores each under its key as it
  is, and the training request carries the estimator's dictionary as it is: there is no
  check of any value. Cell 8 is one call of the training interface, and its request
  holds exactly the six keys of the notebook with their string values.
\<close>

theorem hyperparameters_verbatim:
  "map_of (hyperparam_dict (set_hyperparameters kwargs est)) =
     map_of (hyperparam_dict est) ++ map_of (rev kwargs)
   \<and> HyperParameters (request_of est inputs) = hyperparam_dict est
   \<and> cell8 E cfg r v =
       bindR (call (CreateTrainingJob (request_of (cell8_estimator cfg r v) (input_data v)))
                (fit E (request_of (cell8_estimator cfg r v) (input_data v))))
         (\<lambda>job. returnR ((cell8_estimator cfg r v)\<lparr>latest_training_job := Some job\<rparr>))
   \<and> HyperParameters (request_of (cell8_estimator cfg r v) (input_data v)) =
       [(''num_entity_vectors'', ''20000''),
        (''random_negative_sampling_rate'', ''5''),
        (''vector_dim'', ''128''),
        (''mini_batch_size'', ''1000''),
        (''epochs'', ''5''),
        (''learning_rate'', ''0.01'')]"
  by (simp add: set_hyperparameters_def map_of_fold_update request_of_def cell8_def
      estimator_fit_def cell8_estimator_def new_estimator_def notebook_hyperparameters_def)

lemma cell5_no_deployment:
  "\<not> list_ex is_deployment_call (fst (cell5 E cfg))"
  using cell5_shape [of E cfg] by auto

lemma env_stopped_simps:
  "cell5 env_stopped scenario_cfg =
     ([GetExecutionRole, HeadBucket ''sec405-tuplesbucket-ABC123'',
       Print ''Training input/output will be stored in: s3://sec405-tuplesbucket-ABC123/''],
      Inr ''arn:aws:iam::123456789012:role/sec405'')"
  "get_image_uri env_stopped (region_name env_stopped) ''ipinsights'' = Inr ''ipinsights:1''"
  "fit env_stopped req = Inr \<lparr>job_name = ''ipinsights-job-1'', final_status = Stopped\<rparr>"
  by (code_simp, simp_all add: env_stopped_def scenario_env_def)

lemma env_404_cell5:
  "cell5 env_404 scenario_cfg =
     ([GetExecutionRole, HeadBucket ''sec405-tuplesbucket-ABC123'',
       Print (not_found_line ''sec405-tuplesbucket-ABC123'')],
      Inr ''arn:aws:iam::123456789012:role/sec405'')"
  "fit env_404 req = Inl (ClientError ''ValidationException'' ''No S3 objects found'')"
  by (code_simp, simp add: env_404_def)

text \<open>
  C8, as the notebook behaves. The notebook does not look at the state in which the job
  ended; what decides is whether the blocking \<^verbatim>\<open>fit\<close> raises. After a setup that
  succeeded: when \<^verbatim>\<open>fit\<close> raises, the run ends with that exception and the deployment
  interface is never called; when \<^verbatim>\<open>fit\<close> returns, whatever the final state of the job,
  the deployment of that job is requested.
\<close>

theorem deployment_follows_fit:
  assumes "cell5 E cfg = (t, Inr r)"
    and "get_image_uri E (region_name E) ''ipinsights'' = Inr img"
  shows "(\<forall>e. fit E (request_of (cell8_estimator cfg r (cell7_values cfg img))
                    (input_data (cell7_values cfg img))) = Inl e \<longrightarrow>
            snd (run_all E cfg) = Inl e
            \<and> \<not> list_ex is_deployment_call (fst (run_all E cfg)))
         \<and> (\<forall>job. fit E (request_of (cell8_estimator cfg r (cell7_values cfg img))
                       (input_data (cell7_values cfg img))) = Inr job \<longrightarrow>
            CreateEndpoint
              \<lparr>TrainingJobName = job_name job, InitialInstanceCount = 1,
               EndpointInstanceType = ''ml.m4.xlarge''\<rparr>
              \<in> set (fst (run_all E cfg)))"
proof -
  have t: "\<not> list_ex is_deployment_call t"
    using cell5_no_deployment [of E cfg] assms(1) by simp
  have run: "run_all E cfg =
      (Print ''Welcome to IP Insights!'' # t @ fst (training E cfg r), snd (training E cfg r))"
    by (rule run_all_after_cell5 [OF assms(1)])
  have dep: "CreateEndpoint
         \<lparr>TrainingJobName = job_name job, InitialInstanceCount = 1,
          EndpointInstanceType = ''ml.m4.xlarge''\<rparr>
       \<in> set (fst (deployment E cfg v (est\<lparr>latest_training_job := Some job\<rparr>)))"
    for v est job
    using deployment_eq [of "est\<lparr>latest_training_job := Some job\<rparr>" job E cfg v]
    by (simp add: Let_def split: sum.splits)
  show ?thesis
    using t dep
    by (simp add: run training_after_cell7 [OF assms(2)] Let_def)
qed

theorem deployment_follows_fit_witness:
  "snd (run_all env_404 scenario_cfg) =
     Inl (ClientError ''ValidationException'' ''No S3 objects found'')
   \<and> \<not> list_ex is_deployment_call (fst (run_all env_404 scenario_cfg))
   \<and> CreateEndpoint
       \<lparr>TrainingJobName = ''ipinsights-job-1'', InitialInstanceCount = 1,
        EndpointInstanceType = ''ml.m4.xlarge''\<rparr>
       \<in> set (fst (run_all env_stopped scenario_cfg))"
  using deployment_follows_fit [OF env_404_cell5(1) env_404_simps(3)]
    deployment_follows_fit [OF env_stopped_simps(1) env_stopped_simps(2)]
  by (simp add: env_404_cell5(2) env_stopped_simps(3))

text \<open>
  The claim as written fails for the job of \<open>env_stopped\<close>: it ends stopped, \<^verbatim>\<open>fit\<close>
  returns, and the trace of the run holds the call of the deployment interface.
\<close>

theorem stopped_job_deployed_counterexample:
  "fit env_stopped
     (request_of
        (cell8_estimator scenario_cfg ''arn:aws:iam::123456789012:role/sec405''
           (cell7_values scenario_cfg ''ipinsights:1''))
        (input_data (cell7_values scenario_cfg ''ipinsights:1''))) =
     Inr \<lparr>job_name = ''ipinsights-job-1'', final_status = Stopped\<rparr>
   \<and> list_ex is_training_call (fst (run_all env_stopped scenario_cfg))
   \<and> list_ex is_deployment_call (fst (run_all env_stopped scenario_cfg))"
  by code_simp

subsection \<open>Inference\<close>



lemma read_csv_eq:
  "read_csv E uri =
     ([ReadObject uri],
      case read_object E uri of
        Inl e \<Rightarrow> Inl e
      | Inr [] \<Rightarrow> Inl (OtherException ''EmptyDataError'' ''No columns to parse from file'')
      | Inr (header # rows) \<Rightarrow> Inr \<lparr>columns = header, frame_values = rows\<rparr>)"
  by (simp add: read_csv_def call_def bindR_def raiseR_def returnR_def
      split: sum.splits list.splits)





text \<open>
  Runs with inference requests, all in these formats: one in the scenario, whose second
  prediction ends in the serializer, and two when every object has a header line.
\<close>

lemma scenario_inference_requests:
  "filter is_inference_call (fst (run_all scenario_env scenario_cfg)) =
     [InvokeEndpoint
        \<lparr>EndpointName = ''ipinsights-job-1'', ContentType = Some ''text/csv'',
         Accept = Some ''application/json'', Body = ''user-2,10.0.0.9''\<rparr>]"
  "filter is_inference_call
     (fst (run_all (scenario_env_with_header [''principal'', ''ip'']) scenario_cfg)) =
     [InvokeEndpoint
        \<lparr>EndpointName = ''ipinsights-job-1'', ContentType = Some ''text/csv'',
         Accept = Some ''application/json'', Body = ''user-1,203.0.113.44''\<rparr>,
      InvokeEndpoint
        \<lparr>EndpointName = ''ipinsights-job-1'', ContentType = Some ''text/csv'',
         Accept = Some ''application/json'', Body = ''user-1,203.0.113.44''\<rparr>]"
  by code_simp+

lemma read_then_predict:
  "read_object E uri = Inr (header # rows) \<Longrightarrow>
   bindR (read_csv E uri) (\<lambda>inference_data. predict E p (frame_values inference_data)) =
     (ReadObject uri # fst (predict E p rows), snd (predict E p rows))"
  by (simp add: read_csv_eq bindR_def)

lemma scenario_uris:
  "s3_uri (bucket scenario_cfg) (train_key (cell7_values scenario_cfg img)) =
     ''s3://sec405-tuplesbucket-ABC123/train/cloudtrail_tuples.csv''"
  "s3_uri (bucket scenario_cfg) (infer_key scenario_cfg) =
     ''s3://sec405-tuplesbucket-ABC123/infer/guardduty_tuples.csv''"
  by (simp_all add: s3_uri_def scenario_cfg_def cell7_values_def infer_key_def
      os_path_join_def join2_def Let_def)

lemma scenario_objects_simps:
  "read_object scenario_env ''s3://sec405-tuplesbucket-ABC123/train/cloudtrail_tuples.csv'' =
     Inr [[''user-1'', ''10.0.0.5''], [''user-2'', ''10.0.0.9'']]"
  "read_object scenario_env ''s3://sec405-tuplesbucket-ABC123/infer/guardduty_tuples.csv'' =
     Inr [[''user-1'', ''203.0.113.44'']]"
  by (simp_all add: scenario_env_def scenario_objects_def)

text \<open>
  C10. In cell 16 and in cell 18 alike, the first record of the object read becomes the
  column names and is not part of the batch: for an object of \<open>N \<ge> 1\<close> records,
  \<^verbatim>\<open>predict\<close> is called with the \<open>N - 1\<close> records after the first, in their order, and for
  an object of one record it is called with the empty batch.
\<close>

theorem header_line_excluded:
  "(read_object E (s3_uri (bucket cfg) (train_key v)) = Inr records \<and> records \<noteq> [] \<longrightarrow>
      cell16 E cfg v p =
        (ReadObject (s3_uri (bucket cfg) (train_key v)) # fst (predict E p (tl records)),
         snd (predict E p (tl records)))
      \<and> length (tl records) = length records - 1)
   \<and> (read_object E (s3_uri (bucket cfg) (infer_key cfg)) = Inr records \<and> records \<noteq> [] \<longrightarrow>
      cell18 E cfg p =
        (ReadObject (s3_uri (bucket cfg) (infer_key cfg)) # fst (predict E p (tl records)),
         snd (predict E p (tl records)))
      \<and> length (tl records) = length records - 1)
   \<and> (read_object E (s3_uri (bucket cfg) (infer_key cfg)) = Inr [line] \<longrightarrow>
      cell18 E cfg p =
        (ReadObject (s3_uri (bucket cfg) (infer_key cfg)) # fst (predict E p []),
         snd (predict E p [])))"
  by (cases records) (simp_all add: cell16_def cell18_def read_then_predict)

theorem header_line_excluded_witness:
  "read_object scenario_env
     (s3_uri (bucket scenario_cfg)
        (train_key (cell7_values scenario_cfg ''ipinsights:1''))) =
     Inr [[''user-1'', ''10.0.0.5''], [''user-2'', ''10.0.0.9'']]
   \<and> cell16 scenario_env scenario_cfg (cell7_values scenario_cfg ''ipinsights:1'')
       scenario_predictor =
     (ReadObject ''s3://sec405-tuplesbucket-ABC123/train/cloudtrail_tuples.csv'' #
        fst (predict scenario_env scenario_predictor [[''user-2'', ''10.0.0.9'']]),
      snd (predict scenario_env scenario_predictor [[''user-2'', ''10.0.0.9'']]))
   \<and> read_object scenario_env (s3_uri (bucket scenario_cfg) (infer_key scenario_cfg)) =
     Inr [[''user-1'', ''203.0.113.44'']]
   \<and> cell18 scenario_env scenario_cfg scenario_predictor =
     (ReadObject ''s3://sec405-tuplesbucket-ABC123/infer/guardduty_tuples.csv'' #
        fst (predict scenario_env scenario_predictor []),
      snd (predict scenario_env scenario_predictor []))"
  using
    header_line_excluded
      [of scenario_env scenario_cfg "cell7_values scenario_cfg ''ipinsights:1''"
        "[[''user-1'', ''10.0.0.5''], [''user-2'', ''10.0.0.9'']]" scenario_predictor]
    header_line_excluded
      [of scenario_env scenario_cfg _ "[[''user-1'', ''203.0.113.44'']]" scenario_predictor
        "[''user-1'', ''203.0.113.44'']"]
  by (simp add: scenario_uris scenario_objects_simps)





end
